theory Spec2Isabelle
  imports Main "HOL-Library.Word"
begin

section \<open>Call-stack frames (stack.go)\<close>

text \<open>
  \<^verbatim>\<open>type Frame uintptr\<close>: a frame is a machine word (64 bits on the platforms the
  tests name), and \<^verbatim>\<open>pc()\<close> subtracts one with wrap-around, so that the frame
  \<open>0\<close> has the program counter \<open>2^64 - 1\<close>.
\<close>

type_synonym uintptr = "64 word"
type_synonym Frame = uintptr

definition unknown :: string where
  "unknown = ''unknown''"

definition pc :: "Frame \<Rightarrow> uintptr" where
  "pc f = f - 1"

text \<open>
  The Go runtime's symbol table is not part of the package; it is a parameter of every
  function that resolves a frame. \<^verbatim>\<open>runtime.FuncForPC\<close> gives a
  \<^verbatim>\<open>*runtime.Func\<close> or nil; a \<^verbatim>\<open>Func\<close> has a name and maps a program counter
  to a file and a line.
\<close>

record runtime_Func =
  Name :: string
  FileLine :: "uintptr \<Rightarrow> string \<times> int"

type_synonym FuncForPC = "uintptr \<Rightarrow> runtime_Func option"

definition FuncInfo :: "FuncForPC \<Rightarrow> Frame \<Rightarrow> string \<times> int \<times> string" where
  "FuncInfo rt f =
     (case rt (pc f) of
        None \<Rightarrow> (unknown, 0, unknown)
      | Some fn \<Rightarrow> (case FileLine fn (pc f) of (file, line) \<Rightarrow> (file, line, Name fn)))"

subsection \<open>Standard-library string helpers the frame formatter calls\<close>

text \<open>\<^verbatim>\<open>strconv.Itoa\<close>: the decimal digits of an integer, with a minus sign when negative.\<close>

fun decimal :: "nat \<Rightarrow> string" where
  "decimal n = (if n < 10 then [''0123456789'' ! n]
                else decimal (n div 10) @ [''0123456789'' ! (n mod 10)])"

declare decimal.simps [simp del]

definition Itoa :: "int \<Rightarrow> string" where
  "Itoa i = (if i < 0 then CHR ''-'' # decimal (nat (- i)) else decimal (nat i))"

text \<open>
  \<^verbatim>\<open>strings.Index\<close> and \<^verbatim>\<open>strings.LastIndex\<close> for a one-byte separator: the
  position of its first (last) occurrence, or \<open>-1\<close>.
\<close>

fun Index :: "string \<Rightarrow> char \<Rightarrow> int" where
  "Index [] c = - 1"
| "Index (x # xs) c =
     (if x = c then 0 else (let r = Index xs c in if r < 0 then - 1 else r + 1))"

definition LastIndex :: "string \<Rightarrow> char \<Rightarrow> int" where
  "LastIndex s c =
     (let r = Index (rev s) c in if r < 0 then - 1 else int (length s) - 1 - r)"

text \<open>
  \<^verbatim>\<open>path.Base\<close>: the last element of a slash-separated path. The empty path gives
  \<open>.\<close>, trailing slashes are removed first, and a path of slashes only gives \<open>/\<close>.
\<close>

fun strip_trailing :: "string \<Rightarrow> string" where
  "strip_trailing [] = []"
| "strip_trailing (c # cs) = (if c = CHR ''/'' then strip_trailing cs else c # cs)"

definition Base :: "string \<Rightarrow> string" where
  "Base p =
     (if p = [] then ''.''
      else
        (let p1 = rev (strip_trailing (rev p));
             i = LastIndex p1 (CHR ''/'');
             p2 = (if i \<ge> 0 then drop (nat (i + 1)) p1 else p1)
         in if p2 = [] then ''/'' else p2))"

text \<open>\<^verbatim>\<open>funcname\<close> removes the path prefix component of a function's name.\<close>

definition funcname :: "string \<Rightarrow> string" where
  "funcname name =
     (let i = LastIndex name (CHR ''/'');
          name1 = drop (nat (i + 1)) name;
          j = Index name1 (CHR ''.'')
      in drop (nat (j + 1)) name1)"

subsection \<open>Frame.Format and Frame.MarshalText\<close>

text \<open>
  Of \<^verbatim>\<open>fmt.State\<close> the formatters read the flags only; what they write is the string
  the model returns. The verb is the rune passed to \<^verbatim>\<open>Format\<close>.
\<close>

record fmt_State =
  Flag :: "char \<Rightarrow> bool"

function Frame_Format :: "FuncForPC \<Rightarrow> fmt_State \<Rightarrow> char \<Rightarrow> Frame \<Rightarrow> string" where
  "Frame_Format rt s verb f =
     (case FuncInfo rt f of (file, line, name) \<Rightarrow>
        if verb = CHR ''s'' then
          (if Flag s (CHR ''+'') then
             (if file = unknown then file
              else name @ [CHR 0x0A, CHR 0x09] @ file)
           else Base file)
        else if verb = CHR ''d'' then Itoa line
        else if verb = CHR ''n'' then funcname name
        else if verb = CHR ''v'' then
          Frame_Format rt s (CHR ''s'') f @ '':'' @ Frame_Format rt s (CHR ''d'') f
        else [])"
  by pat_completeness auto
termination
  by (relation "measure (\<lambda>(rt, s, verb, f). if verb = CHR ''v'' then 1 else 0)") auto

declare Frame_Format.simps [simp del]

text \<open>\<^verbatim>\<open>fmt.Sprintf("%s %s:%d", name, file, line)\<close> on two strings and an int.\<close>

definition MarshalText :: "FuncForPC \<Rightarrow> Frame \<Rightarrow> string" where
  "MarshalText rt f =
     (case FuncInfo rt f of (file, line, name) \<Rightarrow>
        if name = unknown then name
        else name @ '' '' @ file @ '':'' @ Itoa line)"

section \<open>Stack traces (stack.go)\<close>

text \<open>
  \<^verbatim>\<open>type StackTrace []Frame\<close>: a slice, which may be nil (\<open>None\<close>). Ranging over a
  nil slice visits nothing.
\<close>

type_synonym StackTrace = "Frame list option"

definition frames :: "StackTrace \<Rightarrow> Frame list" where
  "frames st = (case st of None \<Rightarrow> [] | Some fs \<Rightarrow> fs)"

text \<open>The loop of \<^verbatim>\<open>formatSlice\<close>, with its index: a space before every frame but the first.\<close>

fun formatSlice_loop :: "FuncForPC \<Rightarrow> fmt_State \<Rightarrow> char \<Rightarrow> nat \<Rightarrow> Frame list \<Rightarrow> string" where
  "formatSlice_loop rt s verb i [] = []"
| "formatSlice_loop rt s verb i (f # fs) =
     (if i > 0 then '' '' else []) @ Frame_Format rt s verb f
       @ formatSlice_loop rt s verb (Suc i) fs"

definition formatSlice :: "FuncForPC \<Rightarrow> fmt_State \<Rightarrow> char \<Rightarrow> StackTrace \<Rightarrow> string" where
  "formatSlice rt s verb st = ''['' @ formatSlice_loop rt s verb 0 (frames st) @ '']''"

text \<open>
  \<^verbatim>\<open>fmt.Fprintf(s, "%#v", []Frame(st))\<close>: package fmt prints a slice in Go syntax, the
  type name first, \<open>(nil)\<close> for a nil slice, and otherwise the elements in braces,
  separated by a comma and a space; each element is a \<^verbatim>\<open>Formatter\<close> and is printed by its
  own \<^verbatim>\<open>Format\<close> with the verb \<open>v\<close> and the flag \<open>#\<close>.
\<close>

fun sharp_elems :: "FuncForPC \<Rightarrow> nat \<Rightarrow> Frame list \<Rightarrow> string" where
  "sharp_elems rt i [] = []"
| "sharp_elems rt i (f # fs) =
     (if i > 0 then '', '' else [])
       @ Frame_Format rt \<lparr>Flag = (\<lambda>c. c = CHR ''#'')\<rparr> (CHR ''v'') f
       @ sharp_elems rt (Suc i) fs"

definition Fprintf_sharp_v :: "FuncForPC \<Rightarrow> StackTrace \<Rightarrow> string" where
  "Fprintf_sharp_v rt st =
     (case st of
        None \<Rightarrow> ''[]errors.Frame(nil)''
      | Some fs \<Rightarrow> ''[]errors.Frame{'' @ sharp_elems rt 0 fs @ ''}'')"

fun plus_lines :: "FuncForPC \<Rightarrow> fmt_State \<Rightarrow> char \<Rightarrow> Frame list \<Rightarrow> string" where
  "plus_lines rt s verb [] = []"
| "plus_lines rt s verb (f # fs) =
     Frame_Format rt s verb f @ [CHR 0x0A] @ plus_lines rt s verb fs"

definition StackTrace_Format :: "FuncForPC \<Rightarrow> fmt_State \<Rightarrow> char \<Rightarrow> StackTrace \<Rightarrow> string" where
  "StackTrace_Format rt s verb st =
     (if verb = CHR ''v'' then
        (if Flag s (CHR ''+'') then plus_lines rt s verb (frames st)
         else if Flag s (CHR ''#'') then Fprintf_sharp_v rt st
         else formatSlice rt s verb st)
      else if verb = CHR ''s'' then formatSlice rt s verb st
      else [])"

subsection \<open>Capture\<close>

text \<open>
  \<^verbatim>\<open>runtime.Callers(skip, pc)\<close> belongs to the Go runtime: it fills \<^verbatim>\<open>pc\<close> with the
  return program counters of the calling goroutine's stack, leaving out the first
  \<^verbatim>\<open>skip\<close> frames (frame 0 is \<^verbatim>\<open>Callers\<close> itself), and returns how many entries it
  wrote, never more than \<^verbatim>\<open>len(pc)\<close>. \<^verbatim>\<open>skip\<close> is an \<^verbatim>\<open>int\<close>; the runtime drops
  a frame while the count is positive, so a negative \<^verbatim>\<open>skip\<close> leaves out nothing. The
  goroutine's stack at that moment, innermost frame first, is the parameter \<open>cs\<close>; the
  result is the part of the buffer that was written.
\<close>

definition runtime_Callers :: "int \<Rightarrow> nat \<Rightarrow> uintptr list \<Rightarrow> uintptr list" where
  "runtime_Callers skip len cs = take len (drop (nat skip) cs)"

text \<open>
  \<^verbatim>\<open>extraSkip\<close> and \<^verbatim>\<open>defaultSkip\<close> are of type \<^verbatim>\<open>uint\<close>, 64 bits wide like
  \<^verbatim>\<open>uintptr\<close>: their sum wraps around, and the conversion \<^verbatim>\<open>int(...)\<close> reads the
  64 bits as a signed number.
\<close>

type_synonym uint = "64 word"

definition defaultSkip :: uint where
  "defaultSkip = 2"

definition depth :: nat where
  "depth = 32"

text \<open>
  The loop copies the \<open>n\<close> written entries, converting each to a \<^verbatim>\<open>Frame\<close>; the slice
  made by \<^verbatim>\<open>make\<close> is never nil.
\<close>

definition callers :: "uint \<Rightarrow> uintptr list \<Rightarrow> Frame list" where
  "callers extraSkip cs =
     (let pcs = runtime_Callers (sint (defaultSkip + extraSkip)) depth cs;
          n = length pcs
      in map (\<lambda>i. pcs ! i) [0..<n])"

section \<open>Error values\<close>

text \<open>
  A Go \<^verbatim>\<open>error\<close> is an interface value: nil, or a value with a dynamic type. The
  package's three types are unexported and are allocated only by
  \<^verbatim>\<open>newFundamental\<close>, \<^verbatim>\<open>wStack\<close>, \<^verbatim>\<open>wMessage\<close> and \<^verbatim>\<open>wrap\<close>, which store a
  non-nil cause and the non-nil slice \<^verbatim>\<open>callers\<close> returns; the datatype holds
  exactly these shapes. Errors of other packages appear as \<open>Foreign\<close> (a type without
  an \<^verbatim>\<open>Unwrap\<close> method) and \<open>ForeignWrapper\<close> (a type with one, whose result may be
  nil), each with the name of its dynamic type and the text of its \<^verbatim>\<open>Error()\<close>. A
  foreign type cannot have the unexported method \<^verbatim>\<open>stackTrace\<close>. Values are immutable
  and finite, so a chain of causes has no cycle.
\<close>

datatype err =
    Fundamental string "Frame list"
  | WithStack err "Frame list"
  | WithMessage err string
  | Foreign string string
  | ForeignWrapper string string "err option"

type_synonym error = "err option"

fun Error :: "err \<Rightarrow> string" where
  "Error (Fundamental msg stack) = msg"
| "Error (WithStack e stack) = Error e"
| "Error (WithMessage cause msg) = msg @ '': '' @ Error cause"
| "Error (Foreign ty text) = text"
| "Error (ForeignWrapper ty text cause) = text"

text \<open>
  The type assertion \<^verbatim>\<open>err.(interface{ stackTrace() StackTrace })\<close> and the method:
  \<open>None\<close> when the dynamic type has no such method.
\<close>

fun stackTrace :: "err \<Rightarrow> StackTrace option" where
  "stackTrace (Fundamental msg stack) = Some (Some stack)"
| "stackTrace (WithStack e stack) = Some (Some stack)"
| "stackTrace _ = None"

text \<open>
  The type assertion \<^verbatim>\<open>err.(interface{ Unwrap() error })\<close> and the method: \<open>None\<close>
  when the dynamic type has no \<^verbatim>\<open>Unwrap\<close>, otherwise what it returns.
\<close>

fun method_Unwrap :: "err \<Rightarrow> error option" where
  "method_Unwrap (WithStack e stack) = Some (Some e)"
| "method_Unwrap (WithMessage cause msg) = Some (Some cause)"
| "method_Unwrap (ForeignWrapper ty text cause) = Some cause"
| "method_Unwrap _ = None"

text \<open>
  Modelled from the spec: the package-level \<^verbatim>\<open>Unwrap\<close> that \<^verbatim>\<open>Stack\<close> calls is not
  among the sources. It is the chain-unwrap of the spec (the standard library's
  \<^verbatim>\<open>errors.Unwrap\<close>): the result of the \<^verbatim>\<open>Unwrap\<close> method when the error has one, nil
  otherwise.
\<close>

definition Unwrap :: "error \<Rightarrow> error" where
  "Unwrap err =
     (case err of
        None \<Rightarrow> None
      | Some e \<Rightarrow> (case method_Unwrap e of None \<Rightarrow> None | Some r \<Rightarrow> r))"

function Stack :: "error \<Rightarrow> StackTrace" where
  "Stack err =
     (case err of
        None \<Rightarrow> None
      | Some e \<Rightarrow>
          (case stackTrace e of
             Some st \<Rightarrow> st
           | None \<Rightarrow> Stack (Unwrap err)))"
  by pat_completeness auto
termination
proof (relation "measure (\<lambda>err. case err of None \<Rightarrow> 0 | Some e \<Rightarrow> Suc (size e))")
  fix err :: error and e :: err
  assume "err = Some e" and "stackTrace e = None"
  then show "(Unwrap err, err)
      \<in> measure (\<lambda>err. case err of None \<Rightarrow> 0 | Some e \<Rightarrow> Suc (size e))"
    by (cases e) (auto simp: Unwrap_def split: option.splits)
qed simp

declare Stack.simps [simp del]

text \<open>The loop of \<^verbatim>\<open>Cause\<close>: one call is one test of \<^verbatim>\<open>err != nil\<close> and one pass.\<close>

function Cause :: "error \<Rightarrow> error" where
  "Cause err =
     (case err of
        None \<Rightarrow> err
      | Some e \<Rightarrow>
          (case method_Unwrap e of
             None \<Rightarrow> err
           | Some maybeErr \<Rightarrow>
               (case maybeErr of
                  None \<Rightarrow> err
                | Some e' \<Rightarrow> Cause maybeErr)))"
  by pat_completeness auto
termination
proof (relation "measure (\<lambda>err. case err of None \<Rightarrow> 0 | Some e \<Rightarrow> Suc (size e))")
  fix err maybeErr :: error and e e' :: err
  assume "err = Some e" and "method_Unwrap e = Some maybeErr" and "maybeErr = Some e'"
  then show "(maybeErr, err)
      \<in> measure (\<lambda>err. case err of None \<Rightarrow> 0 | Some e \<Rightarrow> Suc (size e))"
    by (cases e) auto
qed simp

declare Cause.simps [simp del]

subsection \<open>Constructors\<close>

text \<open>
  Every capture point takes the goroutine's call stack \<open>cs\<close> as \<^verbatim>\<open>runtime.Callers\<close>
  sees it. \<^verbatim>\<open>fmt.Sprintf\<close> is a parameter of the formatting variants.
\<close>

definition newFundamental :: "string \<Rightarrow> uint \<Rightarrow> uintptr list \<Rightarrow> error" where
  "newFundamental text' extraSkip cs = Some (Fundamental text' (callers (1 + extraSkip) cs))"

definition New :: "string \<Rightarrow> uintptr list \<Rightarrow> error" where
  "New text' cs = newFundamental text' 1 cs"

definition Errorf :: "(string \<Rightarrow> 'a list \<Rightarrow> string) \<Rightarrow> string \<Rightarrow> 'a list \<Rightarrow> uintptr list \<Rightarrow> error" where
  "Errorf Sprintf format args cs = newFundamental (Sprintf format args) 1 cs"

definition wStack :: "error \<Rightarrow> uint \<Rightarrow> uintptr list \<Rightarrow> error" where
  "wStack err extraSkip cs =
     (case err of
        None \<Rightarrow> None
      | Some e \<Rightarrow> Some (WithStack e (callers (1 + extraSkip) cs)))"

definition WithStack' :: "error \<Rightarrow> uintptr list \<Rightarrow> error" where
  "WithStack' err cs = wStack err 1 cs"

definition wMessage :: "error \<Rightarrow> string \<Rightarrow> error" where
  "wMessage err message =
     (case err of
        None \<Rightarrow> None
      | Some e \<Rightarrow> Some (WithMessage e message))"

definition WithMessage' :: "error \<Rightarrow> string \<Rightarrow> error" where
  "WithMessage' err message = wMessage err message"

definition WithMessagef :: "(string \<Rightarrow> 'a list \<Rightarrow> string) \<Rightarrow> error \<Rightarrow> string \<Rightarrow> 'a list \<Rightarrow> error" where
  "WithMessagef Sprintf err format args = wMessage err (Sprintf format args)"

definition wrap :: "error \<Rightarrow> string \<Rightarrow> uint \<Rightarrow> uintptr list \<Rightarrow> error" where
  "wrap err message extraSkip cs =
     (case err of
        None \<Rightarrow> None
      | Some e \<Rightarrow>
          (let err1 = WithMessage e message
           in if Stack (Some err1) \<noteq> None then Some err1
              else Some (WithStack err1 (callers (1 + extraSkip) cs))))"

definition Wrap :: "error \<Rightarrow> string \<Rightarrow> uintptr list \<Rightarrow> error" where
  "Wrap err message cs = wrap err message 1 cs"

definition Wrapf :: "(string \<Rightarrow> 'a list \<Rightarrow> string) \<Rightarrow> error \<Rightarrow> string \<Rightarrow> 'a list \<Rightarrow> uintptr list \<Rightarrow> error" where
  "Wrapf Sprintf err format args cs = wrap err (Sprintf format args) 1 cs"

subsection \<open>Formatting an error\<close>

text \<open>
  \<^verbatim>\<open>Format\<close> is a method of the package's three types; a foreign error has none, and
  \<open>Format\<close> is left unspecified there. \<open>Fprintf_plus_v\<close> is
  \<^verbatim>\<open>fmt.Fprintf(s, "%+v", err)\<close> on a non-nil error: package fmt calls the
  \<^verbatim>\<open>Format\<close> method when there is one, with the verb \<open>v\<close> and the flag \<open>+\<close>, and
  prints \<^verbatim>\<open>Error()\<close> otherwise. Foreign errors are taken to have no \<^verbatim>\<open>Format\<close>
  method of their own (the standard library's have none); one that had would print by
  that method under \<open>%+v\<close>, and only there. \<^verbatim>\<open>strconv.Quote\<close>, which \<open>%q\<close> applies to
  a string, is the parameter \<open>Quote\<close>.
\<close>

fun Format :: "FuncForPC \<Rightarrow> (string \<Rightarrow> string) \<Rightarrow> fmt_State \<Rightarrow> char \<Rightarrow> err \<Rightarrow> string"
  and Fprintf_plus_v :: "FuncForPC \<Rightarrow> (string \<Rightarrow> string) \<Rightarrow> err \<Rightarrow> string"
where
  "Format rt Quote s verb (Fundamental msg stack) =
     (if verb = CHR ''v'' then
        (if Flag s (CHR ''+'') then
           (msg @ [CHR 0x0A]) @ StackTrace_Format rt s verb (Some stack)
         else msg)
      else if verb = CHR ''s'' then msg
      else if verb = CHR ''q'' then Quote msg
      else [])"
| "Format rt Quote s verb (WithStack e stack) =
     (if verb = CHR ''v'' then
        (if Flag s (CHR ''+'') then
           (Fprintf_plus_v rt Quote e @ [CHR 0x0A]) @ StackTrace_Format rt s verb (Some stack)
         else Error (WithStack e stack))
      else if verb = CHR ''s'' then Error (WithStack e stack)
      else if verb = CHR ''q'' then Quote (Error (WithStack e stack))
      else [])"
| "Format rt Quote s verb (WithMessage cause msg) =
     (if verb = CHR ''v'' then
        (if Flag s (CHR ''+'') then
           msg @ '': '' @ Fprintf_plus_v rt Quote cause
         else Error (WithMessage cause msg))
      else if verb = CHR ''s'' then Error (WithMessage cause msg)
      else if verb = CHR ''q'' then [CHR 0x22] @ Error (WithMessage cause msg) @ [CHR 0x22]
      else [])"
| "Fprintf_plus_v rt Quote (Foreign ty text) = Error (Foreign ty text)"
| "Fprintf_plus_v rt Quote (ForeignWrapper ty text cause) = Error (ForeignWrapper ty text cause)"
| "Fprintf_plus_v rt Quote e = Format rt Quote \<lparr>Flag = (\<lambda>c. c = CHR ''+'')\<rparr> (CHR ''v'') e"

section \<open>Remapping (remap.go and its go1.18 companion)\<close>

type_synonym ErrConverter = "error \<Rightarrow> error"
type_synonym ErrRemapperFunc = "error \<Rightarrow> error \<times> bool"

definition ConstConverter :: "error \<Rightarrow> ErrConverter" where
  "ConstConverter err = (\<lambda>_. err)"

fun Remap :: "error \<Rightarrow> ErrRemapperFunc list \<Rightarrow> error" where
  "Remap err [] = err"
| "Remap err (remapper # remappers) =
     (case remapper err of (e, ok) \<Rightarrow> if ok then e else Remap err remappers)"

text \<open>
  The same loop, also counting the rules it calls before it returns: a rule after the
  first match is never called.
\<close>

fun Remap_counting :: "error \<Rightarrow> ErrRemapperFunc list \<Rightarrow> error \<times> nat" where
  "Remap_counting err [] = (err, 0)"
| "Remap_counting err (remapper # remappers) =
     (case remapper err of (e, ok) \<Rightarrow>
        if ok then (e, 1)
        else (case Remap_counting err remappers of (r, n) \<Rightarrow> (r, Suc n)))"

text \<open>
  \<^verbatim>\<open>err == comparedErr\<close> compares two interface values: two nil errors are equal, a nil
  and a non-nil error are not, and two errors of different dynamic types are not. For two
  errors of the same dynamic type Go compares the pointers, or the values of a comparable
  value type, and panics on an uncomparable one. Values carry no address here, and the
  comparison of the model is equality of values: it agrees with Go in the first three
  cases, which are the only ones the theorems below use, and it is an approximation in
  the last.
\<close>

definition ValueRemapperFunc :: "error \<Rightarrow> ErrConverter \<Rightarrow> ErrRemapperFunc" where
  "ValueRemapperFunc comparedErr converter =
     (\<lambda>err. if err = comparedErr then (converter err, True) else (None, False))"

definition ValueRemapper :: "error \<Rightarrow> error \<Rightarrow> ErrRemapperFunc" where
  "ValueRemapper comparedErr convertTo = ValueRemapperFunc comparedErr (ConstConverter convertTo)"

subsection \<open>Dynamic types\<close>

text \<open>
  \<^verbatim>\<open>reflect.TypeOf\<close> gives the dynamic type of an interface value, and nil for a nil
  interface. The dynamic types of error values are the package's three pointer types and
  the named types of other packages.
\<close>

datatype go_type = Ptr_fundamental | Ptr_withStack | Ptr_withMessage | Named string

fun dynamic_type :: "err \<Rightarrow> go_type" where
  "dynamic_type (Fundamental msg stack) = Ptr_fundamental"
| "dynamic_type (WithStack e stack) = Ptr_withStack"
| "dynamic_type (WithMessage cause msg) = Ptr_withMessage"
| "dynamic_type (Foreign ty text) = Named ty"
| "dynamic_type (ForeignWrapper ty text cause) = Named ty"

definition TypeOf :: "error \<Rightarrow> go_type option" where
  "TypeOf err = map_option dynamic_type err"

definition TypeRemapperLegacyF :: "error \<Rightarrow> ErrConverter \<Rightarrow> ErrRemapperFunc" where
  "TypeRemapperLegacyF T converter =
     (let t = TypeOf T
      in (\<lambda>err. if TypeOf err = t then (converter err, True) else (None, False)))"

definition TypeRemapperLegacy :: "error \<Rightarrow> error \<Rightarrow> ErrRemapperFunc" where
  "TypeRemapperLegacy T convertTo = TypeRemapperLegacyF T (ConstConverter convertTo)"

text \<open>
  The type argument of the generic constructors is any type that satisfies the constraint
  \<^verbatim>\<open>error\<close>: a concrete error type, or an interface type that includes
  \<^verbatim>\<open>Error() string\<close> (such as \<^verbatim>\<open>error\<close> itself). An interface type is given by the
  dynamic types that implement it. The type assertion \<^verbatim>\<open>err.(T)\<close> fails on a nil
  interface; for a concrete \<open>T\<close> it holds when the dynamic type is identical to \<open>T\<close>,
  for an interface \<open>T\<close> when the dynamic type implements it.
\<close>

datatype type_arg = Concrete go_type | Interface "go_type \<Rightarrow> bool"

definition type_assert :: "error \<Rightarrow> type_arg \<Rightarrow> bool" where
  "type_assert err T =
     (case err of
        None \<Rightarrow> False
      | Some e \<Rightarrow>
          (case T of
             Concrete t \<Rightarrow> dynamic_type e = t
           | Interface implements \<Rightarrow> implements (dynamic_type e)))"

definition TypeRemapperFunc :: "type_arg \<Rightarrow> ErrConverter \<Rightarrow> ErrRemapperFunc" where
  "TypeRemapperFunc T converter =
     (\<lambda>err. if type_assert err T then (converter err, True) else (None, False))"

definition TypeRemapper :: "type_arg \<Rightarrow> error \<Rightarrow> ErrRemapperFunc" where
  "TypeRemapper T convertTo = TypeRemapperFunc T (ConstConverter convertTo)"

text \<open>
  The closure of \<^verbatim>\<open>ErrConstantWrap\<close> captures a stack when it runs; \<open>cs\<close> is the
  goroutine's call stack at that moment.
\<close>

definition ErrConstantWrap ::
  "(string \<Rightarrow> 'a list \<Rightarrow> string) \<Rightarrow> string \<Rightarrow> 'a list \<Rightarrow> uintptr list \<Rightarrow> ErrRemapperFunc" where
  "ErrConstantWrap Sprintf message args cs =
     (\<lambda>err. (wrap err (Sprintf message args) 1 cs, True))"

section \<open>The vocabulary of the specification\<close>

text \<open>
  The causal chain of a non-nil error, as the specification speaks of it: the error, then
  what its \<^verbatim>\<open>Unwrap\<close> gives, and so on, up to the first error that has no
  \<^verbatim>\<open>Unwrap\<close> or whose \<^verbatim>\<open>Unwrap\<close> gives nil. \<open>first_stack\<close> is the stack of the
  first error in a list that carries one.
\<close>

fun causal_chain :: "err \<Rightarrow> err list" where
  "causal_chain (WithStack e stack) = WithStack e stack # causal_chain e"
| "causal_chain (WithMessage cause msg) = WithMessage cause msg # causal_chain cause"
| "causal_chain (ForeignWrapper ty text (Some cause)) =
     ForeignWrapper ty text (Some cause) # causal_chain cause"
| "causal_chain e = [e]"

fun first_stack :: "err list \<Rightarrow> StackTrace" where
  "first_stack [] = None"
| "first_stack (x # xs) = (case stackTrace x of Some st \<Rightarrow> st | None \<Rightarrow> first_stack xs)"

section \<open>Equations of the chain walks and of the constructors\<close>

lemma Stack_nil: "Stack None = None"
  by (simp add: Stack.simps)

lemma Stack_Fundamental: "Stack (Some (Fundamental msg stack)) = Some stack"
  by (simp add: Stack.simps)

lemma Stack_WithStack: "Stack (Some (WithStack e stack)) = Some stack"
  by (simp add: Stack.simps)

lemma Stack_WithMessage: "Stack (Some (WithMessage cause msg)) = Stack (Some cause)"
  by (subst Stack.simps) (simp add: Unwrap_def)

lemma Stack_Foreign: "Stack (Some (Foreign ty text)) = None"
  by (subst Stack.simps) (simp add: Unwrap_def Stack_nil)

lemma Stack_ForeignWrapper: "Stack (Some (ForeignWrapper ty text cause)) = Stack cause"
  by (subst Stack.simps) (simp add: Unwrap_def)

lemmas Stack_eqs = Stack_nil Stack_Fundamental Stack_WithStack Stack_WithMessage Stack_Foreign
  Stack_ForeignWrapper

lemma Cause_nil: "Cause None = None"
  by (simp add: Cause.simps)

lemma Cause_Fundamental: "Cause (Some (Fundamental msg stack)) = Some (Fundamental msg stack)"
  by (simp add: Cause.simps)

lemma Cause_WithStack: "Cause (Some (WithStack e stack)) = Cause (Some e)"
  by (subst Cause.simps) simp

lemma Cause_WithMessage: "Cause (Some (WithMessage cause msg)) = Cause (Some cause)"
  by (subst Cause.simps) simp

lemma Cause_Foreign: "Cause (Some (Foreign ty text)) = Some (Foreign ty text)"
  by (simp add: Cause.simps)

lemma Cause_ForeignWrapper_nil:
  "Cause (Some (ForeignWrapper ty text None)) = Some (ForeignWrapper ty text None)"
  by (simp add: Cause.simps)

lemma Cause_ForeignWrapper: "Cause (Some (ForeignWrapper ty text (Some c))) = Cause (Some c)"
  by (subst Cause.simps) simp

lemmas Cause_eqs = Cause_nil Cause_Fundamental Cause_WithStack Cause_WithMessage Cause_Foreign
  Cause_ForeignWrapper_nil Cause_ForeignWrapper

lemma callers_eq: "callers extraSkip cs = take 32 (drop (nat (sint (2 + extraSkip))) cs)"
  by (simp add: callers_def runtime_Callers_def defaultSkip_def depth_def Let_def map_nth)

lemma callers_two: "callers 2 cs = take 32 (drop 4 cs)"
  by (simp add: callers_eq)

lemma wrap_non_nil:
  "wrap (Some e) message extraSkip cs =
     (if Stack (Some e) \<noteq> None then Some (WithMessage e message)
      else Some (WithStack (WithMessage e message) (callers (1 + extraSkip) cs)))"
  by (simp add: wrap_def Let_def Stack_WithMessage)


lemma causal_chain_not_Nil: "causal_chain e \<noteq> []"
  by (induction e rule: causal_chain.induct) simp_all

lemma Cause_last_chain: "Cause (Some e) = Some (last (causal_chain e))"
  by (induction e rule: causal_chain.induct) (simp_all add: Cause_eqs causal_chain_not_Nil)

lemma Stack_first_stack: "Stack (Some e) = first_stack (causal_chain e)"
  by (induction e rule: causal_chain.induct) (simp_all add: Stack_eqs)

lemma first_stack_none: "\<forall>x\<in>set xs. stackTrace x = None \<Longrightarrow> first_stack xs = None"
  by (induction xs) simp_all


lemma Wrap_non_nil:
  "Wrap (Some e) message cs =
     (if Stack (Some e) \<noteq> None then Some (WithMessage e message)
      else Some (WithStack (WithMessage e message) (callers 2 cs)))"
  by (simp add: Wrap_def wrap_non_nil)

lemma Wrap_obtain:
  obtains w where "Wrap (Some e) message cs = Some w" and "Error w = message @ '': '' @ Error e"
    and "w = WithMessage e message \<or> w = WithStack (WithMessage e message) (callers 2 cs)"
  by (cases "Stack (Some e) = None") (simp_all add: Wrap_non_nil)

lemma Format_short:
  assumes "verb = CHR ''s'' \<or> (verb = CHR ''v'' \<and> \<not> Flag s (CHR ''+''))"
  shows "Format rt Quote s verb (Fundamental m st) = Error (Fundamental m st)"
    and "Format rt Quote s verb (WithStack x st) = Error (WithStack x st)"
    and "Format rt Quote s verb (WithMessage x m) = Error (WithMessage x m)"
  using assms by auto

lemma Error_fold_Wrap:
  "map_option Error (fold (\<lambda>(m, cs) err. Wrap err m cs) ws (Some e))
     = Some (concat (map (\<lambda>(m, cs). m @ '': '') (rev ws)) @ Error e)"
proof (induction ws arbitrary: e)
  case Nil
  show ?case by simp
next
  case (Cons w ws)
  obtain m cs where w: "w = (m, cs)" by (cases w)
  obtain e' where e': "Wrap (Some e) m cs = Some e'" "Error e' = m @ '': '' @ Error e"
    by (rule Wrap_obtain)
  show ?case using Cons.IH [of e'] by (simp add: w e')
qed

section \<open>Lemmas shared by the claims\<close>

lemma New_eq: "New text' cs = Some (Fundamental text' (callers 2 cs))"
  by (simp add: New_def newFundamental_def)

lemma Remap_no_match: "\<forall>r\<in>set rules. \<not> snd (r err) \<Longrightarrow> Remap err rules = err"
  by (induction rules) (auto split: prod.splits)

lemma Remap_first_match:
  "\<forall>p\<in>set pre. \<not> snd (p err) \<Longrightarrow> snd (r err) \<Longrightarrow> Remap err (pre @ r # post) = fst (r err)"
  by (induction pre) (auto split: prod.splits)

lemma Remap_counting_first_match:
  "\<forall>p\<in>set pre. \<not> snd (p err) \<Longrightarrow> snd (r err)
     \<Longrightarrow> Remap_counting err (pre @ r # post) = (fst (r err), Suc (length pre))"
  by (induction pre) (auto split: prod.splits)

lemma Remap_counting_no_match:
  "\<forall>r\<in>set rules. \<not> snd (r err) \<Longrightarrow> Remap_counting err rules = (err, length rules)"
  by (induction rules) (auto split: prod.splits)

lemma Remap_counting_fst: "fst (Remap_counting err rules) = Remap err rules"
  by (induction rules) (auto split: prod.splits)

lemma Remap_find:
  "Remap err rules
     = (case find (\<lambda>r. snd (r err)) rules of None \<Rightarrow> err | Some r \<Rightarrow> fst (r err))"
  by (induction rules) (auto split: prod.splits)

lemma Remap_snoc_find:
  "snd (f err) \<Longrightarrow> Remap err (rules @ [f])
     = (case find (\<lambda>r. snd (r err)) rules of None \<Rightarrow> fst (f err) | Some r \<Rightarrow> fst (r err))"
  by (induction rules) (auto split: prod.splits)

lemma Remap_nil_harmless:
  "\<forall>r\<in>set rules. snd (r None) \<longrightarrow> fst (r None) = None \<Longrightarrow> Remap None rules = None"
  by (induction rules) (auto split: prod.splits)

lemma causal_chain_hd: "causal_chain e ! 0 = e"
  by (induction e rule: causal_chain.induct) simp_all

lemma causal_chain_links:
  "Suc i < length (causal_chain e)
     \<Longrightarrow> method_Unwrap (causal_chain e ! i) = Some (Some (causal_chain e ! Suc i))"
proof (induction e arbitrary: i rule: causal_chain.induct)
  case (1 e stack)
  then show ?case by (cases i) (simp_all add: causal_chain_hd)
next
  case (2 cause msg)
  then show ?case by (cases i) (simp_all add: causal_chain_hd)
next
  case (3 ty tx cause)
  then show ?case by (cases i) (simp_all add: causal_chain_hd)
qed simp_all

lemma causal_chain_Unwrap:
  "Suc i < length (causal_chain e)
     \<Longrightarrow> Unwrap (Some (causal_chain e ! i)) = Some (causal_chain e ! Suc i)"
  by (simp add: Unwrap_def causal_chain_links)

lemma last_chain_capability:
  "method_Unwrap (last (causal_chain e)) = None \<or> method_Unwrap (last (causal_chain e)) = Some None"
  by (induction e rule: causal_chain.induct) (simp_all add: causal_chain_not_Nil)

lemma Cause_Wrap_Wrap_New: "Cause (Wrap (Wrap (New root cs0) a cs1) b cs2) = New root cs0"
  by (simp add: New_eq Wrap_non_nil Stack_eqs Cause_eqs)

lemma first_stack_at:
  "i < length xs \<Longrightarrow> stackTrace (xs ! i) = Some st \<Longrightarrow> \<forall>j<i. stackTrace (xs ! j) = None
     \<Longrightarrow> first_stack xs = st"
proof (induction xs arbitrary: i)
  case Nil
  then show ?case by simp
next
  case (Cons x xs)
  show ?case
  proof (cases i)
    case 0
    with Cons.prems show ?thesis by simp
  next
    case (Suc k)
    with Cons.prems have "stackTrace x = None" by auto
    moreover have "first_stack xs = st"
    proof (rule Cons.IH [of k])
      show "k < length xs" using Cons.prems Suc by simp
      show "stackTrace (xs ! k) = Some st" using Cons.prems Suc by simp
      show "\<forall>j<k. stackTrace (xs ! j) = None" using Cons.prems(3) Suc by auto
    qed
    ultimately show ?thesis by simp
  qed
qed

lemma Itoa_0: "Itoa 0 = ''0''"
  by (simp add: Itoa_def decimal.simps)

lemma Base_unknown: "Base unknown = ''unknown''"
  by (simp add: Base_def unknown_def LastIndex_def Let_def)

lemma FuncInfo_unresolved: "rt (pc f) = None \<Longrightarrow> FuncInfo rt f = (unknown, 0, unknown)"
  by (simp add: FuncInfo_def)

lemma FuncInfo_resolved:
  "rt (pc f) = Some fn \<Longrightarrow> FileLine fn (pc f) = (file, line)
     \<Longrightarrow> FuncInfo rt f = (file, line, Name fn)"
  by (simp add: FuncInfo_def)

lemma Frame_Format_unresolved:
  assumes "rt (pc f) = None"
  shows "Frame_Format rt s (CHR ''s'') f = ''unknown''"
    and "Frame_Format rt s (CHR ''d'') f = ''0''"
    and "Frame_Format rt s (CHR ''v'') f = ''unknown:0''"
proof -
  show s: "Frame_Format rt s (CHR ''s'') f = ''unknown''"
    by (subst Frame_Format.simps) (simp add: FuncInfo_unresolved [of rt f, OF assms] Base_unknown, simp add: unknown_def)
  show d: "Frame_Format rt s (CHR ''d'') f = ''0''"
    by (subst Frame_Format.simps) (simp add: FuncInfo_unresolved [of rt f, OF assms] Itoa_0)
  show "Frame_Format rt s (CHR ''v'') f = ''unknown:0''"
    by (subst Frame_Format.simps) (simp add: s d split: prod.splits)
qed

section \<open>Message composition and short printing\<close>

text \<open>
  C1. For a non-nil error \<open>e\<close>, the text of \<open>Wrap e msg\<close> is \<open>msg\<close>, a colon and a
  space, then the text of \<open>e\<close>; two nested wraps give \<open>outer: inner: \<close> before the text
  of the root, and any sequence of wraps gives the messages outermost first. Each of the
  package's three variants, and so the result of \<open>Wrap\<close>, prints under the verb \<open>s\<close>
  (any flags) and under the verb \<open>v\<close> without the flag \<open>+\<close> as the string its
  \<^verbatim>\<open>Error()\<close> returns.
\<close>

theorem Wrap_Error_text:
  "map_option Error (Wrap (Some e) msg cs) = Some (msg @ '': '' @ Error e)
   \<and> map_option Error (Wrap (Wrap (Some e) inner cs1) outer cs2)
       = Some (outer @ '': '' @ inner @ '': '' @ Error e)
   \<and> map_option Error (fold (\<lambda>(m, cs) err. Wrap err m cs) ws (Some e))
       = Some (concat (map (\<lambda>(m, cs). m @ '': '') (rev ws)) @ Error e)
   \<and> (verb = CHR ''s'' \<or> (verb = CHR ''v'' \<and> \<not> Flag s (CHR ''+'')) \<longrightarrow>
        Format rt Quote s verb (Fundamental m st) = Error (Fundamental m st)
      \<and> Format rt Quote s verb (WithStack x st) = Error (WithStack x st)
      \<and> Format rt Quote s verb (WithMessage x m) = Error (WithMessage x m)
      \<and> map_option (Format rt Quote s verb) (Wrap (Some e) msg cs)
          = Some (msg @ '': '' @ Error e))"
proof -
  obtain w where w: "Wrap (Some e) msg cs = Some w" "Error w = msg @ '': '' @ Error e"
    "w = WithMessage e msg \<or> w = WithStack (WithMessage e msg) (callers 2 cs)"
    by (rule Wrap_obtain)
  obtain w1 where w1: "Wrap (Some e) inner cs1 = Some w1" "Error w1 = inner @ '': '' @ Error e"
    by (rule Wrap_obtain)
  obtain w2 where w2: "Wrap (Some w1) outer cs2 = Some w2" "Error w2 = outer @ '': '' @ Error w1"
    by (rule Wrap_obtain)
  have one: "map_option Error (Wrap (Some e) msg cs) = Some (msg @ '': '' @ Error e)"
    by (simp add: w)
  have two: "map_option Error (Wrap (Wrap (Some e) inner cs1) outer cs2)
       = Some (outer @ '': '' @ inner @ '': '' @ Error e)"
    by (simp add: w1 w2)
  have printed: "map_option (Format rt Quote s verb) (Wrap (Some e) msg cs)
      = Some (msg @ '': '' @ Error e)"
    if "verb = CHR ''s'' \<or> (verb = CHR ''v'' \<and> \<not> Flag s (CHR ''+''))"
    using w(3) that by (auto simp: w(1))
  show ?thesis
    using one two Error_fold_Wrap [of ws e] printed Format_short [of verb s rt Quote]
    by blast
qed

theorem Wrap_Error_text_witness:
  "map_option Error (Wrap (Some (Foreign ''*errors.errorString'' ''EOF'')) ''read'' [1, 2, 3, 4, 5])
     = Some ''read: EOF''
   \<and> map_option Error
        (Wrap (Wrap (Some (Foreign ''*errors.errorString'' ''EOF'')) ''inner'' [1, 2, 3, 4, 5])
           ''outer'' [1, 2, 3, 4, 6])
     = Some ''outer: inner: EOF''
   \<and> Format (\<lambda>p. None) (\<lambda>t. t) \<lparr>Flag = (\<lambda>c. False)\<rparr> (CHR ''v'')
        (WithMessage (Fundamental ''root'' [5]) ''outer'') = ''outer: root''
   \<and> map_option (Format (\<lambda>p. None) (\<lambda>t. t) \<lparr>Flag = (\<lambda>c. False)\<rparr> (CHR ''v''))
        (Wrap (Some (Foreign ''*errors.errorString'' ''EOF'')) ''read'' [1, 2, 3, 4, 5])
     = Some ''read: EOF''"
  using Wrap_Error_text [of "Foreign ''*errors.errorString'' ''EOF''" "''read''" "[1, 2, 3, 4, 5]"
      "''inner''" "[1, 2, 3, 4, 5]" "''outer''" "[1, 2, 3, 4, 6]" "[]" "CHR ''v''"
      "\<lparr>Flag = (\<lambda>c. False)\<rparr>" "\<lambda>p. None" "\<lambda>t. t" "''outer''" "[5]" "Fundamental ''root'' [5]"]
  by simp

section \<open>Wrap captures a stack only when the chain has none\<close>

text \<open>
  C2. For a non-nil error \<open>e\<close>, \<open>Stack (Wrap e msg)\<close> is never absent. When the chain
  of \<open>e\<close> already carries a stack, \<open>Wrap\<close> returns the message wrapper alone and the
  stack found is the one \<open>e\<close> had; only when the chain carries none does \<open>Wrap\<close> add a
  stack wrapper with a fresh capture. In particular the stack of \<open>Wrap (New x) msg\<close> is
  the stack of \<open>New x\<close>.
\<close>

theorem Wrap_stack_once:
  "Stack (Wrap (Some e) msg cs) \<noteq> None
   \<and> (Stack (Some e) \<noteq> None \<longrightarrow>
        Wrap (Some e) msg cs = Some (WithMessage e msg)
        \<and> Stack (Wrap (Some e) msg cs) = Stack (Some e))
   \<and> (Stack (Some e) = None \<longrightarrow>
        Wrap (Some e) msg cs = Some (WithStack (WithMessage e msg) (callers 2 cs))
        \<and> Stack (Wrap (Some e) msg cs) = Some (callers 2 cs))
   \<and> Stack (Wrap (New x cs0) msg cs) = Stack (New x cs0)"
  by (simp add: Wrap_non_nil New_eq Stack_eqs)

theorem Wrap_stack_once_witness:
  "Stack (Wrap (Some (WithStack (Foreign ''*errors.errorString'' ''EOF'') [7, 8])) ''m''
      [1, 2, 3, 4, 5, 6]) = Some [7, 8]
   \<and> Wrap (Some (Foreign ''*errors.errorString'' ''EOF'')) ''m'' [1, 2, 3, 4, 5, 6]
       = Some (WithStack (WithMessage (Foreign ''*errors.errorString'' ''EOF'') ''m'') [5, 6])
   \<and> Stack (Wrap (New ''x'' [1, 2, 3, 4, 9]) ''m'' [1, 2, 3, 4, 5, 6]) = Some [9]"
  using Wrap_stack_once [of "WithStack (Foreign ''*errors.errorString'' ''EOF'') [7, 8]" "''m''"
      "[1, 2, 3, 4, 5, 6]" "''x''" "[1, 2, 3, 4, 9]"]
    Wrap_stack_once [of "Foreign ''*errors.errorString'' ''EOF''" "''m''"
      "[1, 2, 3, 4, 5, 6]" "''x''" "[1, 2, 3, 4, 9]"]
  by (simp add: Stack_eqs New_eq callers_two)

section \<open>Nil propagation\<close>

text \<open>
  C3, as stated, fails for \<open>Remap\<close>: the loop has no test for nil, and a rule that
  matches the nil error decides the result. The value rule built on the nil error matches
  nil and replaces it.
\<close>

theorem Remap_nil_counterexample:
  "Remap None [ValueRemapper None (New ''x'' [])] = Some (Fundamental ''x'' [])"
  by (simp add: ValueRemapper_def ValueRemapperFunc_def ConstConverter_def New_eq callers_two)

text \<open>
  C3, amended. \<open>Wrap\<close>, \<open>Wrapf\<close>, \<open>WithMessage\<close>, \<open>WithMessagef\<close> and
  \<open>WithStack\<close> return nil on a nil error. \<open>Remap\<close> returns nil on a nil error for the
  empty rule list, and for every rule list in which each rule that matches nil replaces
  it by nil.
\<close>

theorem nil_propagates:
  "Wrap None msg cs = None
   \<and> Wrapf Sprintf None format args cs = None
   \<and> WithMessage' None msg = None
   \<and> WithMessagef Sprintf None format args = None
   \<and> WithStack' None cs = None
   \<and> Remap None [] = None
   \<and> ((\<forall>r\<in>set rules. snd (r None) \<longrightarrow> fst (r None) = None) \<longrightarrow> Remap None rules = None)"
  using Remap_nil_harmless [of rules]
  by (simp add: Wrap_def Wrapf_def wrap_def WithMessage'_def WithMessagef_def wMessage_def
      WithStack'_def wStack_def)

theorem nil_propagates_witness:
  "Wrap None ''m'' [1, 2, 3, 4, 5] = None
   \<and> WithMessage' None ''m'' = None
   \<and> WithStack' None [1, 2, 3, 4, 5] = None
   \<and> Remap None [TypeRemapperLegacy (Some (Foreign ''*fs.PathError'' ''open''))
                    (Some (Foreign ''*errors.errorString'' ''EOF'')),
                  ErrConstantWrap (\<lambda>f (a :: nat list). f) ''boom'' [] [1, 2, 3, 4, 5]] = None"
  using nil_propagates [of "''m''" "[1, 2, 3, 4, 5]" "\<lambda>f (a :: nat list). f" "''m''" "[]"
      "[TypeRemapperLegacy (Some (Foreign ''*fs.PathError'' ''open''))
                    (Some (Foreign ''*errors.errorString'' ''EOF'')),
        ErrConstantWrap (\<lambda>f (a :: nat list). f) ''boom'' [] [1, 2, 3, 4, 5]]"]
  by (simp add: TypeRemapperLegacy_def TypeRemapperLegacyF_def TypeOf_def ErrConstantWrap_def
      wrap_def)

section \<open>First match wins\<close>

text \<open>
  C4. \<open>Remap\<close> tries the rules in list order. When no rule before \<open>r\<close> matches and
  \<open>r\<close> matches, the result is the replacement \<open>r\<close> produced, unchanged, whatever
  rules follow, and the loop has called exactly the rules up to \<open>r\<close>. When no rule
  matches, the error comes back unchanged. In one equation: the result is the replacement
  of the first rule in the list that matches, and the error itself when there is none.
\<close>

theorem Remap_first_match_wins:
  "((\<forall>p\<in>set pre. \<not> snd (p err)) \<and> snd (r err) \<longrightarrow>
        Remap err (pre @ r # post) = fst (r err)
        \<and> Remap_counting err (pre @ r # post) = (fst (r err), Suc (length pre)))
   \<and> ((\<forall>p\<in>set rules. \<not> snd (p err)) \<longrightarrow>
        Remap err rules = err \<and> Remap_counting err rules = (err, length rules))
   \<and> fst (Remap_counting err rules) = Remap err rules
   \<and> Remap err rules
       = (case find (\<lambda>r. snd (r err)) rules of None \<Rightarrow> err | Some r \<Rightarrow> fst (r err))"
  using Remap_first_match [of pre err r post] Remap_counting_first_match [of pre err r post]
    Remap_no_match [of rules err] Remap_counting_no_match [of rules err]
    Remap_counting_fst [of err rules] Remap_find [of err rules]
  by blast

theorem Remap_first_match_wins_witness:
  "Remap (Some (Foreign ''*fs.PathError'' ''open''))
     [ValueRemapper (Some (Foreign ''*errors.errorString'' ''EOF'')) (Some (Foreign ''A'' ''a'')),
      TypeRemapperLegacy (Some (Foreign ''*fs.PathError'' [])) (Some (Foreign ''B'' ''b'')),
      TypeRemapperLegacy (Some (Foreign ''*fs.PathError'' [])) (Some (Foreign ''C'' ''c''))]
     = Some (Foreign ''B'' ''b'')
   \<and> Remap_counting (Some (Foreign ''*fs.PathError'' ''open''))
     [ValueRemapper (Some (Foreign ''*errors.errorString'' ''EOF'')) (Some (Foreign ''A'' ''a'')),
      TypeRemapperLegacy (Some (Foreign ''*fs.PathError'' [])) (Some (Foreign ''B'' ''b'')),
      TypeRemapperLegacy (Some (Foreign ''*fs.PathError'' [])) (Some (Foreign ''C'' ''c''))]
     = (Some (Foreign ''B'' ''b''), 2)
   \<and> Remap (Some (Foreign ''*fs.PathError'' ''open''))
     [ValueRemapper (Some (Foreign ''*errors.errorString'' ''EOF'')) (Some (Foreign ''A'' ''a''))]
     = Some (Foreign ''*fs.PathError'' ''open'')"
  using Remap_first_match_wins [of
      "[ValueRemapper (Some (Foreign ''*errors.errorString'' ''EOF'')) (Some (Foreign ''A'' ''a''))]"
      "Some (Foreign ''*fs.PathError'' ''open'')"
      "TypeRemapperLegacy (Some (Foreign ''*fs.PathError'' [])) (Some (Foreign ''B'' ''b''))"
      "[TypeRemapperLegacy (Some (Foreign ''*fs.PathError'' [])) (Some (Foreign ''C'' ''c''))]"
      "[ValueRemapper (Some (Foreign ''*errors.errorString'' ''EOF'')) (Some (Foreign ''A'' ''a''))]"]
  by (simp add: ValueRemapper_def ValueRemapperFunc_def TypeRemapperLegacy_def
      TypeRemapperLegacyF_def TypeOf_def ConstConverter_def)

section \<open>Cause\<close>

text \<open>
  C5. \<open>Cause\<close> of nil is nil. On a non-nil error \<open>Cause\<close> returns the last element
  of the causal chain, which starts at the error and goes from each element to what its
  \<^verbatim>\<open>Unwrap\<close> method returns; the last element has no \<^verbatim>\<open>Unwrap\<close> method or its
  \<^verbatim>\<open>Unwrap\<close> returns nil. The cause of \<open>Wrap (Wrap (New root) a) b\<close> is the error
  \<open>New root\<close> returned.
\<close>

theorem Cause_deepest:
  "Cause None = None
   \<and> Cause (Some e) = Some (last (causal_chain e))
   \<and> causal_chain e ! 0 = e
   \<and> (\<forall>i. Suc i < length (causal_chain e) \<longrightarrow>
         method_Unwrap (causal_chain e ! i) = Some (Some (causal_chain e ! Suc i)))
   \<and> (method_Unwrap (last (causal_chain e)) = None
       \<or> method_Unwrap (last (causal_chain e)) = Some None)
   \<and> Cause (Wrap (Wrap (New root cs0) a cs1) b cs2) = New root cs0"
  using Cause_last_chain [of e] causal_chain_hd [of e] causal_chain_links [of _ e]
    last_chain_capability [of e] Cause_Wrap_Wrap_New [of root cs0 a cs1 b cs2]
  by (simp add: Cause_nil)

theorem Cause_deepest_witness:
  "Cause (Some (WithMessage (ForeignWrapper ''*fs.PathError'' ''open f''
       (Some (Foreign ''*errors.errorString'' ''EOF''))) ''load''))
     = Some (Foreign ''*errors.errorString'' ''EOF'')
   \<and> method_Unwrap (WithMessage (ForeignWrapper ''*fs.PathError'' ''open f''
       (Some (Foreign ''*errors.errorString'' ''EOF''))) ''load'')
     = Some (Some (ForeignWrapper ''*fs.PathError'' ''open f''
       (Some (Foreign ''*errors.errorString'' ''EOF''))))
   \<and> Cause (Wrap (Wrap (New ''root'' [1, 2, 3, 4, 5]) ''a'' [1, 2, 3, 4, 6]) ''b'' [1, 2, 3, 4, 7])
     = Some (Fundamental ''root'' [5])"
proof -
  let ?e = "WithMessage (ForeignWrapper ''*fs.PathError'' ''open f''
       (Some (Foreign ''*errors.errorString'' ''EOF''))) ''load''"
  have len: "Suc 0 < length (causal_chain ?e)" by simp
  note th = Cause_deepest [of ?e "''root''" "[1, 2, 3, 4, 5]" "''a''" "[1, 2, 3, 4, 6]" "''b''"
      "[1, 2, 3, 4, 7]"]
  from th have "Cause (Some ?e) = Some (last (causal_chain ?e))" by blast
  moreover from th len have "method_Unwrap (causal_chain ?e ! 0) = Some (Some (causal_chain ?e ! Suc 0))"
    by blast
  moreover from th have "Cause (Wrap (Wrap (New ''root'' [1, 2, 3, 4, 5]) ''a'' [1, 2, 3, 4, 6])
      ''b'' [1, 2, 3, 4, 7]) = New ''root'' [1, 2, 3, 4, 5]" by blast
  ultimately show ?thesis by (simp add: New_eq callers_two)
qed

section \<open>Stack\<close>

text \<open>
  C6. \<open>Stack\<close> of nil is absent. On a non-nil error \<open>Stack\<close> returns the stack trace
  of the first error of the causal chain that carries one: if the element at position
  \<open>i\<close> carries the stack \<open>st\<close> and no element before it carries a stack, the result is
  \<open>st\<close>. When no element of the chain carries a stack, the result is absent.
\<close>

theorem Stack_outermost:
  "Stack None = None
   \<and> Stack (Some e) = first_stack (causal_chain e)
   \<and> causal_chain e ! 0 = e
   \<and> (\<forall>i. Suc i < length (causal_chain e) \<longrightarrow>
         Unwrap (Some (causal_chain e ! i)) = Some (causal_chain e ! Suc i))
   \<and> (\<forall>i st. i < length (causal_chain e) \<and> stackTrace (causal_chain e ! i) = Some st
         \<and> (\<forall>j<i. stackTrace (causal_chain e ! j) = None) \<longrightarrow> Stack (Some e) = st)
   \<and> ((\<forall>x\<in>set (causal_chain e). stackTrace x = None) \<longrightarrow> Stack (Some e) = None)"
  using Stack_first_stack [of e] causal_chain_hd [of e] causal_chain_Unwrap [of _ e]
    first_stack_at [of _ "causal_chain e"] first_stack_none [of "causal_chain e"]
  by (simp add: Stack_nil) blast

theorem Stack_outermost_witness:
  "Stack (Some (WithMessage (WithStack (WithMessage (Fundamental ''root'' [9]) ''a'') [7, 8]) ''b''))
     = Some [7, 8]
   \<and> Stack (Some (WithMessage (ForeignWrapper ''*fs.PathError'' ''open f''
       (Some (Foreign ''*errors.errorString'' ''EOF''))) ''load'')) = None"
proof -
  let ?e = "WithMessage (WithStack (WithMessage (Fundamental ''root'' [9]) ''a'') [7, 8]) ''b''"
  let ?g = "WithMessage (ForeignWrapper ''*fs.PathError'' ''open f''
       (Some (Foreign ''*errors.errorString'' ''EOF''))) ''load''"
  have "Suc 0 < length (causal_chain ?e) \<and> stackTrace (causal_chain ?e ! Suc 0) = Some (Some [7, 8])
      \<and> (\<forall>j<Suc 0. stackTrace (causal_chain ?e ! j) = None)"
    by simp
  with Stack_outermost [of ?e] have "Stack (Some ?e) = Some [7, 8]" by blast
  moreover have "\<forall>x\<in>set (causal_chain ?g). stackTrace x = None" by simp
  with Stack_outermost [of ?g] have "Stack (Some ?g) = None" by blast
  ultimately show ?thesis by simp
qed

section \<open>Type-match rules\<close>

text \<open>
  C7, as stated, fails for the generic constructor: its type argument may be an interface
  type, and then the assertion \<^verbatim>\<open>err.(T)\<close> holds for every non-nil error whose dynamic
  type implements the interface. With \<^verbatim>\<open>error\<close> itself as the type argument one rule
  matches two errors of different dynamic types.
\<close>

theorem type_match_counterexample:
  "snd (TypeRemapper (Interface (\<lambda>t. True)) (Some (Foreign ''*app.Err'' ''canonical''))
          (Some (Fundamental ''a'' [])))
   \<and> snd (TypeRemapper (Interface (\<lambda>t. True)) (Some (Foreign ''*app.Err'' ''canonical''))
          (Some (Foreign ''*fs.PathError'' ''b'')))
   \<and> TypeOf (Some (Fundamental ''a'' [])) \<noteq> TypeOf (Some (Foreign ''*fs.PathError'' ''b''))"
  by (simp add: TypeRemapper_def TypeRemapperFunc_def type_assert_def TypeOf_def)

text \<open>
  C7, amended. The rule of the reflection-based constructor matches exactly when
  \<^verbatim>\<open>reflect.TypeOf\<close> of the candidate equals \<^verbatim>\<open>reflect.TypeOf\<close> of the sample (a
  nil candidate matches a nil sample only). The rule of the generic constructor matches
  exactly when the candidate is non-nil and its dynamic type is the type argument, for a
  concrete type argument, or implements it, for an interface type argument. A matching
  rule returns what the converter returns for the candidate (the fixed replacement for
  the constructors that take one); a rule that does not match returns nil and false.
\<close>

theorem type_match_rules:
  "TypeRemapperLegacyF T converter err
     = (if TypeOf err = TypeOf T then (converter err, True) else (None, False))
   \<and> TypeRemapperLegacy T convertTo err
     = (if TypeOf err = TypeOf T then (convertTo, True) else (None, False))
   \<and> TypeRemapperFunc (Concrete t) converter err
     = (if TypeOf err = Some t then (converter err, True) else (None, False))
   \<and> TypeRemapper (Concrete t) convertTo err
     = (if TypeOf err = Some t then (convertTo, True) else (None, False))
   \<and> TypeRemapperFunc (Interface implements) converter err
     = (if \<exists>ty. TypeOf err = Some ty \<and> implements ty then (converter err, True)
        else (None, False))
   \<and> TypeRemapper (Interface implements) convertTo err
     = (if \<exists>ty. TypeOf err = Some ty \<and> implements ty then (convertTo, True)
        else (None, False))"
  by (cases err)
     (simp_all add: TypeRemapperLegacyF_def TypeRemapperLegacy_def TypeRemapperFunc_def
       TypeRemapper_def ConstConverter_def type_assert_def TypeOf_def)

theorem type_match_rules_witness:
  "TypeRemapperLegacy (Some (Foreign ''*fs.PathError'' [])) (Some (Foreign ''*app.Err'' ''x''))
      (Some (Foreign ''*fs.PathError'' ''open'')) = (Some (Foreign ''*app.Err'' ''x''), True)
   \<and> TypeRemapperLegacy (Some (Foreign ''*fs.PathError'' [])) (Some (Foreign ''*app.Err'' ''x''))
      (Some (Fundamental ''open'' [])) = (None, False)
   \<and> TypeRemapper (Concrete (Named ''*fs.PathError'')) (Some (Foreign ''*app.Err'' ''x''))
      (Some (Foreign ''*fs.PathError'' ''open'')) = (Some (Foreign ''*app.Err'' ''x''), True)
   \<and> TypeRemapper (Concrete (Named ''*fs.PathError'')) (Some (Foreign ''*app.Err'' ''x'')) None
      = (None, False)"
  using type_match_rules [of "Some (Foreign ''*fs.PathError'' [])" "\<lambda>e. e"
      "Some (Foreign ''*fs.PathError'' ''open'')" "Some (Foreign ''*app.Err'' ''x'')"
      "Named ''*fs.PathError''" "\<lambda>t. True"]
    type_match_rules [of "Some (Foreign ''*fs.PathError'' [])" "\<lambda>e. e"
      "Some (Fundamental ''open'' [])" "Some (Foreign ''*app.Err'' ''x'')"
      "Named ''*fs.PathError''" "\<lambda>t. True"]
    type_match_rules [of "Some (Foreign ''*fs.PathError'' [])" "\<lambda>e. e"
      "None" "Some (Foreign ''*app.Err'' ''x'')"
      "Named ''*fs.PathError''" "\<lambda>t. True"]
  by (simp add: TypeOf_def)

section \<open>Depth of a captured stack\<close>

text \<open>
  C8. A captured stack has at most 32 frames: for every skip count, wrap-around of the
  unsigned sum included, \<open>callers\<close> keeps the first 32 program counters after the
  skipped frames and nothing beyond them. \<open>New\<close>, \<open>Errorf\<close>, \<open>WithStack\<close> and
  \<open>Wrap\<close> (when it captures) store the first 32 frames from their caller on.
\<close>

theorem capture_depth_bounded:
  "length (callers extraSkip cs) \<le> 32
   \<and> callers extraSkip cs = take 32 (drop (nat (sint (2 + extraSkip))) cs)
   \<and> New msg cs = Some (Fundamental msg (take 32 (drop 4 cs)))
   \<and> Errorf Sprintf format args cs
       = Some (Fundamental (Sprintf format args) (take 32 (drop 4 cs)))
   \<and> WithStack' (Some e) cs = Some (WithStack e (take 32 (drop 4 cs)))
   \<and> (Stack (Some e) = None \<longrightarrow>
        Wrap (Some e) msg cs = Some (WithStack (WithMessage e msg) (take 32 (drop 4 cs))))
   \<and> length (frames (Stack (New msg cs))) \<le> 32
   \<and> length (frames (Stack (Errorf Sprintf format args cs))) \<le> 32
   \<and> length (frames (Stack (WithStack' (Some e) cs))) \<le> 32
   \<and> (Stack (Some e) = None \<longrightarrow> length (frames (Stack (Wrap (Some e) msg cs))) \<le> 32)"
proof -
  have bound: "length (callers extraSkip cs) \<le> 32"
    by (simp add: callers_eq)
  have errorf: "Errorf Sprintf format args cs
      = Some (Fundamental (Sprintf format args) (callers 2 cs))"
    by (simp add: Errorf_def newFundamental_def)
  have withstack: "WithStack' (Some e) cs = Some (WithStack e (callers 2 cs))"
    by (simp add: WithStack'_def wStack_def)
  show ?thesis
    using bound callers_eq [of extraSkip cs]
    by (simp add: New_eq errorf withstack Wrap_non_nil Stack_eqs frames_def callers_two)
qed

theorem capture_depth_bounded_witness:
  "length (frames (Stack (Wrap (Some (Foreign ''*errors.errorString'' ''EOF'')) ''m''
       (map of_nat [0..<100])))) = 32
   \<and> callers (- 1) [1, 2, 3, 4, 5, 6] = [2, 3, 4, 5, 6]
   \<and> Stack (New ''x'' (map of_nat [0..<40])) = Some (map of_nat [4..<36])
   \<and> Stack (New ''x'' [1, 2, 3, 4, 5, 6]) = Some [5, 6]"
proof -
  let ?e = "Foreign ''*errors.errorString'' ''EOF''"
  have none: "Stack (Some ?e) = None" by (simp add: Stack_eqs)
  have "Wrap (Some ?e) ''m'' (map of_nat [0..<100])
      = Some (WithStack (WithMessage ?e ''m'') (take 32 (drop 4 (map of_nat [0..<100]))))"
    using capture_depth_bounded [of _ "map of_nat [0..<100]" _ _ _ _ ?e] none by blast
  then have a: "length (frames (Stack (Wrap (Some ?e) ''m'' (map of_nat [0..<100])))) = 32"
    by (simp add: Stack_eqs frames_def)
  have "callers (- 1) [1, 2, 3, 4, 5, 6]
      = take 32 (drop (nat (sint (2 + (- 1) :: uint))) [1, 2, 3, 4, 5, 6])"
    using capture_depth_bounded [of "- 1" "[1, 2, 3, 4, 5, 6]"] by blast
  then have w: "callers (- 1) [1, 2, 3, 4, 5, 6] = [2, 3, 4, 5, 6]"
    by simp
  have b: "Stack (New ''x'' (map of_nat [0..<40])) = Some (map of_nat [4..<36])"
    by (simp add: New_eq Stack_eqs callers_two take_map drop_map take_upt drop_upt)
  have c: "Stack (New ''x'' [1, 2, 3, 4, 5, 6]) = Some [5, 6]"
    by (simp add: New_eq Stack_eqs callers_two)
  from a w b c show ?thesis by blast
qed

section \<open>Rendering a frame\<close>

text \<open>
  Where the code does what is claimed of it: a frame that does not resolve renders as
  \<open>unknown\<close> under the verb \<open>s\<close>, with and without the flag \<open>+\<close>, as \<open>unknown:0\<close>
  under the verb \<open>v\<close>, and serializes to \<open>unknown\<close>; a frame that resolves to a function
  with another name than \<open>unknown\<close> serializes to the name, a space, the file, a colon
  and the line.
\<close>

lemma unresolved_frame_rendering:
  assumes "rt (pc f) = None"
  shows "Frame_Format rt s (CHR ''s'') f = ''unknown''"
    and "Frame_Format rt s (CHR ''v'') f = ''unknown:0''"
    and "MarshalText rt f = ''unknown''"
proof -
  show "Frame_Format rt s (CHR ''s'') f = ''unknown''"
    using assms by (rule Frame_Format_unresolved(1) [of rt f s])
  show "Frame_Format rt s (CHR ''v'') f = ''unknown:0''"
    using assms by (rule Frame_Format_unresolved(3) [of rt f s])
  show "MarshalText rt f = ''unknown''"
    by (simp add: MarshalText_def FuncInfo_unresolved [of rt f, OF assms], simp add: unknown_def)
qed

lemma resolved_frame_serialization:
  assumes "rt (pc f) = Some fn" and "FileLine fn (pc f) = (file, line)"
    and "Name fn \<noteq> ''unknown''"
  shows "MarshalText rt f = Name fn @ '' '' @ file @ '':'' @ Itoa line"
  using assms by (simp add: MarshalText_def FuncInfo_resolved unknown_def)

text \<open>
  C9. The claim asks that a frame that resolves serializes to the function, a space, the
  file, a colon and the line. \<^verbatim>\<open>MarshalText\<close> does not do so for a frame that resolves
  to a function named \<open>unknown\<close>: it compares the name with the sentinel, where
  \<^verbatim>\<open>Frame.Format\<close> compares the file, and returns the sentinel alone. At the frame 42,
  resolved to the function \<open>unknown\<close> at line 7 of \<open>/src/asm.s\<close>, the verb \<open>v\<close> with
  the flag \<open>+\<close> prints name, file and line, which \<^verbatim>\<open>MarshalText\<close> is documented to
  repeat without newline and tab, and \<^verbatim>\<open>MarshalText\<close> returns \<open>unknown\<close>.
\<close>

theorem MarshalText_named_unknown:
  "(\<lambda>p. if p = 41 then Some \<lparr>Name = ''unknown'', FileLine = (\<lambda>q. (''/src/asm.s'', 7))\<rparr>
         else None) (pc 42) \<noteq> None
   \<and> Frame_Format
        (\<lambda>p. if p = 41 then Some \<lparr>Name = ''unknown'', FileLine = (\<lambda>q. (''/src/asm.s'', 7))\<rparr>
              else None) \<lparr>Flag = (\<lambda>c. c = CHR ''+'')\<rparr> (CHR ''v'') 42
       = ''unknown'' @ [CHR 0x0A, CHR 0x09] @ ''/src/asm.s:7''
   \<and> MarshalText
        (\<lambda>p. if p = 41 then Some \<lparr>Name = ''unknown'', FileLine = (\<lambda>q. (''/src/asm.s'', 7))\<rparr>
              else None) 42 = ''unknown''
   \<and> MarshalText
        (\<lambda>p. if p = 41 then Some \<lparr>Name = ''unknown'', FileLine = (\<lambda>q. (''/src/asm.s'', 7))\<rparr>
              else None) 42 \<noteq> ''unknown /src/asm.s:7''"
proof -
  let ?rt = "\<lambda>p :: uintptr. if p = 41
      then Some \<lparr>Name = ''unknown'', FileLine = (\<lambda>q :: uintptr. (''/src/asm.s'', 7 :: int))\<rparr>
      else None"
  have info: "FuncInfo ?rt 42 = (''/src/asm.s'', 7, ''unknown'')"
    by (simp add: FuncInfo_def pc_def)
  have seven: "Itoa 7 = ''7''"
    by (simp add: Itoa_def decimal.simps)
  have s: "Frame_Format ?rt \<lparr>Flag = (\<lambda>c. c = CHR ''+'')\<rparr> (CHR ''s'') 42
      = ''unknown'' @ [CHR 0x0A, CHR 0x09] @ ''/src/asm.s''"
    by (subst Frame_Format.simps) (simp add: info unknown_def)
  have d: "Frame_Format ?rt \<lparr>Flag = (\<lambda>c. c = CHR ''+'')\<rparr> (CHR ''d'') 42 = ''7''"
    by (subst Frame_Format.simps) (simp add: info seven)
  have v: "Frame_Format ?rt \<lparr>Flag = (\<lambda>c. c = CHR ''+'')\<rparr> (CHR ''v'') 42
      = ''unknown'' @ [CHR 0x0A, CHR 0x09] @ ''/src/asm.s:7''"
    by (subst Frame_Format.simps) (simp add: s d split: prod.splits)
  have m: "MarshalText ?rt 42 = ''unknown''"
    by (simp add: MarshalText_def info unknown_def)
  show ?thesis
    using v m by (simp add: pc_def)
qed

section \<open>The terminal fallback rule on nil\<close>

text \<open>
  C10, as stated, fails in its last part: a rule list that ends in the fallback rule does
  not always map nil to nil, because an earlier rule that matches nil decides the result
  before the fallback is tried.
\<close>

theorem fallback_nil_counterexample:
  "Remap None
     [ValueRemapper None (Some (Foreign ''*app.Err'' ''x'')),
      ErrConstantWrap (\<lambda>f (a :: nat list). f) ''unexpected'' [] [1, 2, 3, 4, 5]]
     = Some (Foreign ''*app.Err'' ''x'')"
  by (simp add: ValueRemapper_def ValueRemapperFunc_def ConstConverter_def)

text \<open>
  C10, amended. For every message and arguments, the rule \<open>ErrConstantWrap\<close> builds
  reports a match on the nil error and replaces it by nil. So a rule list that ends in
  this rule, and whose other rules do not match nil, maps nil to nil rather than to a
  wrapped error. Whatever the other rules are, the result on nil is the replacement of the
  first of them that matches nil, and nil when none does.
\<close>

theorem ErrConstantWrap_nil:
  "ErrConstantWrap Sprintf message args cs None = (None, True)
   \<and> ((\<forall>r\<in>set rules. \<not> snd (r None)) \<longrightarrow>
        Remap None (rules @ [ErrConstantWrap Sprintf message args cs]) = None)
   \<and> Remap None (rules @ [ErrConstantWrap Sprintf message args cs])
       = (case find (\<lambda>r. snd (r None)) rules of None \<Rightarrow> None | Some r \<Rightarrow> fst (r None))"
proof -
  have nil: "ErrConstantWrap Sprintf message args cs None = (None, True)"
    by (simp add: ErrConstantWrap_def wrap_def)
  have reached: "Remap None (rules @ [ErrConstantWrap Sprintf message args cs]) = None"
    if "\<forall>r\<in>set rules. \<not> snd (r None)"
    using Remap_first_match [OF that, of "ErrConstantWrap Sprintf message args cs" "[]"] nil
    by simp
  have any: "Remap None (rules @ [ErrConstantWrap Sprintf message args cs])
       = (case find (\<lambda>r. snd (r None)) rules of None \<Rightarrow> None | Some r \<Rightarrow> fst (r None))"
    using Remap_snoc_find [of "ErrConstantWrap Sprintf message args cs" None rules]
    by (simp add: nil split: option.splits)
  show ?thesis
    using nil reached any by simp
qed

theorem ErrConstantWrap_nil_witness:
  "Remap None
     [TypeRemapperLegacy (Some (Foreign ''*fs.PathError'' [])) (Some (Foreign ''*app.Err'' ''x'')),
      ValueRemapper (Some (Foreign ''*errors.errorString'' ''EOF'')) (Some (Foreign ''*app.Err'' ''y'')),
      ErrConstantWrap (\<lambda>f (a :: nat list). f) ''unexpected'' [] [1, 2, 3, 4, 5]] = None
   \<and> ErrConstantWrap (\<lambda>f (a :: nat list). f) ''unexpected'' [] [1, 2, 3, 4, 5] None = (None, True)"
  using ErrConstantWrap_nil [of "\<lambda>f (a :: nat list). f" "''unexpected''" "[]" "[1, 2, 3, 4, 5]"
      "[TypeRemapperLegacy (Some (Foreign ''*fs.PathError'' [])) (Some (Foreign ''*app.Err'' ''x'')),
        ValueRemapper (Some (Foreign ''*errors.errorString'' ''EOF'')) (Some (Foreign ''*app.Err'' ''y''))]"]
  by (simp add: TypeRemapperLegacy_def TypeRemapperLegacyF_def TypeOf_def ValueRemapper_def
      ValueRemapperFunc_def)

end
